theory Spec2Isabelle
  imports Complex_Main
begin

section \<open>Python values shared by the embedding\<close>

text \<open>
  An exception is identified by the name of its class. The abbreviations below are the
  exception classes that \<^verbatim>\<open>decoder/analyse_datasets.py\<close> can raise itself or receives
  from the interpreter and from numpy.
\<close>

datatype pyerr = PyErr string

abbreviation TypeError :: pyerr where "TypeError \<equiv> PyErr ''TypeError''"
abbreviation NameError :: pyerr where "NameError \<equiv> PyErr ''NameError''"
abbreviation ValueError :: pyerr where "ValueError \<equiv> PyErr ''ValueError''"
abbreviation IndexError :: pyerr where "IndexError \<equiv> PyErr ''IndexError''"
abbreviation KeyError :: pyerr where "KeyError \<equiv> PyErr ''KeyError''"
abbreviation NotImplementedError :: pyerr where
  "NotImplementedError \<equiv> PyErr ''NotImplementedError''"
abbreviation UnboundLocalError :: pyerr where
  "UnboundLocalError \<equiv> PyErr ''UnboundLocalError''"

text \<open>Sequencing of fallible steps: the first exception ends the computation.\<close>

definition ebind :: "pyerr + 'a \<Rightarrow> ('a \<Rightarrow> pyerr + 'b) \<Rightarrow> pyerr + 'b" where
  "ebind r f = (case r of Inl e \<Rightarrow> Inl e | Inr v \<Rightarrow> f v)"

section \<open>Growing-window folds of \<^verbatim>\<open>analyse_train_test\<close>\<close>

text \<open>
  \<^verbatim>\<open>range(start, stop, step)\<close>: an ascending progression for a positive step, a
  descending one for a negative step and \<^verbatim>\<open>ValueError\<close> for step zero.
\<close>

function range_up :: "int \<Rightarrow> int \<Rightarrow> int \<Rightarrow> int list" where
  "range_up i stop step =
     (if 0 < step \<and> i < stop then i # range_up (i + step) stop step else [])"
  by pat_completeness auto
termination
  by (relation "measure (\<lambda>(i, stop, step). nat (stop - i))") auto

function range_down :: "int \<Rightarrow> int \<Rightarrow> int \<Rightarrow> int list" where
  "range_down i stop step =
     (if step < 0 \<and> stop < i then i # range_down (i + step) stop step else [])"
  by pat_completeness auto
termination
  by (relation "measure (\<lambda>(i, stop, step). nat (i - stop))") auto

definition py_range :: "int \<Rightarrow> int \<Rightarrow> int \<Rightarrow> pyerr + int list" where
  "py_range start stop step =
     (if step = 0 then Inl ValueError
      else if 0 < step then Inr (range_up start stop step)
      else Inr (range_down start stop step))"

text \<open>
  A slice with the default step, \<^verbatim>\<open>slice(start, stop)\<close>, applied to
  \<^verbatim>\<open>np.arange(n)\<close>: a negative bound counts from the end and every bound is clamped
  to \<open>[0, n]\<close>.
\<close>

datatype pyslice = Slice "int option" "int option"

definition slice_bound :: "nat \<Rightarrow> int \<Rightarrow> nat" where
  "slice_bound n i = (if i < 0 then nat (max 0 (int n + i)) else min n (nat i))"

fun arange_slice :: "nat \<Rightarrow> pyslice \<Rightarrow> nat list" where
  "arange_slice n (Slice start stop) =
     [(case start of None \<Rightarrow> 0 | Some a \<Rightarrow> slice_bound n a) ..<
      (case stop of None \<Rightarrow> n | Some b \<Rightarrow> slice_bound n b)]"

text \<open>
  Lines 248-255: an integer \<^verbatim>\<open>splits\<close> is the step of the training-set size. One
  entry is appended per \<^verbatim>\<open>tsti\<close> of \<^verbatim>\<open>range(splitsize, maxsize, splitsize)\<close>; an
  entry is a one-element tuple holding the pair of slices
  \<^verbatim>\<open>(slice(tsti), slice(tsti, None))\<close>.
\<close>

definition growing_splits :: "nat \<Rightarrow> int \<Rightarrow> pyerr + (pyslice \<times> pyslice) list list" where
  "growing_splits maxsize splitsize =
     ebind (py_range splitsize (int maxsize) splitsize)
       (\<lambda>ts. Inr (map (\<lambda>tsti. [(Slice None (Some tsti), Slice (Some tsti) None)]) ts))"

text \<open>
  Lines 269-270: the trial indices of a fold,
  \<^verbatim>\<open>trnIdx = np.arange(X.shape[0])[cv[0][0]]\<close> and
  \<^verbatim>\<open>tstIdx = np.arange(X.shape[0])[cv[0][1]]\<close>. The tuple \<^verbatim>\<open>cv\<close> built above is
  never empty; an empty one raises \<^verbatim>\<open>IndexError\<close>.
\<close>

fun fold_indices :: "nat \<Rightarrow> (pyslice \<times> pyslice) list \<Rightarrow> pyerr + (nat list \<times> nat list)" where
  "fold_indices n [] = Inl IndexError"
| "fold_indices n ((trn, tst) # rest) = Inr (arange_slice n trn, arange_slice n tst)"


section \<open>\<^verbatim>\<open>analyse_dataset\<close>\<close>

subsection \<open>Sample rate, response length and offset (lines 70-76)\<close>

text \<open>
  \<^verbatim>\<open>coords\<close> is a list of dictionaries, one per axis; the function reads the keys
  \<^verbatim>\<open>'name'\<close> (of every axis, for the log line) and \<^verbatim>\<open>'fs'\<close> (of axis 1). A key that
  is absent is \<open>None\<close> here and raises \<^verbatim>\<open>KeyError\<close> when read.
\<close>

record axis =
  ax_name :: "string option"
  ax_fs :: "rat option"

text \<open>
  With \<^verbatim>\<open>coords\<close> given, the sample rate of axis 1 replaces the argument \<^verbatim>\<open>fs\<close>;
  without, \<^verbatim>\<open>fs\<close> stays as passed, possibly \<^verbatim>\<open>None\<close>.
\<close>

definition rate_of_coords :: "axis list option \<Rightarrow> rat option \<Rightarrow> pyerr + rat option" where
  "rate_of_coords coords fs =
     (case coords of
        None \<Rightarrow> Inr fs
      | Some cs \<Rightarrow>
          if length cs \<le> 1 then Inl IndexError
          else (case ax_fs (cs ! 1) of
                  None \<Rightarrow> Inl KeyError
                | Some f \<Rightarrow>
                    if list_ex (\<lambda>c. ax_name c = None) cs then Inl KeyError
                    else Inr (Some f)))"

text \<open>
  \<^verbatim>\<open>int(ms*fs/1000)\<close>. Numbers are rationals, so the rounding of the floating-point
  product and quotient is not part of the model; \<^verbatim>\<open>int\<close> truncates towards zero.
  Multiplying by \<^verbatim>\<open>None\<close> raises \<^verbatim>\<open>TypeError\<close>.
\<close>

definition py_int :: "rat \<Rightarrow> int" where
  "py_int q = (if 0 \<le> q then \<lfloor>q\<rfloor> else \<lceil>q\<rceil>)"

definition ms_to_samples :: "rat \<Rightarrow> rat option \<Rightarrow> pyerr + int" where
  "ms_to_samples ms fs =
     (case fs of None \<Rightarrow> Inl TypeError | Some f \<Rightarrow> Inr (py_int (ms * f / 1000)))"

definition tau_offset ::
  "axis list option \<Rightarrow> rat option \<Rightarrow> rat \<Rightarrow> rat \<Rightarrow> pyerr + (int \<times> int)" where
  "tau_offset coords fs tau_ms offset_ms =
     ebind (rate_of_coords coords fs) (\<lambda>fs'.
     ebind (ms_to_samples tau_ms fs') (\<lambda>tau.
     ebind (ms_to_samples offset_ms fs') (\<lambda>offset. Inr (tau, offset))))"

subsection \<open>Model construction (lines 83-104)\<close>

text \<open>
  The \<^verbatim>\<open>model\<close> argument: an instance of \<^verbatim>\<open>BaseSequence2Sequence\<close>, a string,
  \<^verbatim>\<open>None\<close>, or any other object (an sklearn estimator, say).
\<close>

datatype 'm model_arg = Instance 'm | Token string | NoModel | OtherObject

text \<open>The sklearn estimators built in lines 92-98, with the arguments they receive.\<close>

datatype sk_estimator =
    Ridge rat bool
  | LogisticRegression rat bool
  | LinearSVR rat
  | LinearSVC rat
  | PassedModel

text \<open>
  The constructor calls. \<^verbatim>\<open>LinearSklearn\<close> receives \<^verbatim>\<open>clsfr\<close> and \<^verbatim>\<open>labelizeY\<close>
  only in some branches; an argument that is not passed is \<open>None\<close>.
\<close>

datatype adapter_call =
    MultiCCA int int int "string list option" bool
  | BwdLinearRegression int int "string list option" bool
  | FwdLinearRegression int int "string list option" bool
  | LinearSklearn int int "string list option" "sk_estimator option" "bool option"

datatype 'm made = AsIs 'm | New adapter_call

text \<open>
  Line 99 evaluates \<^verbatim>\<open>isinstance(model,sklearn.linear_model)\<close>. The module binds
  \<^verbatim>\<open>Ridge\<close>, \<^verbatim>\<open>LogisticRegression\<close>, \<^verbatim>\<open>LinearSVR\<close>, \<^verbatim>\<open>LinearSVC\<close> and
  \<^verbatim>\<open>GridSearchCV\<close> by \<^verbatim>\<open>from sklearn... import\<close>, and nowhere the name
  \<^verbatim>\<open>sklearn\<close> itself: looking it up raises \<^verbatim>\<open>NameError\<close> before \<^verbatim>\<open>isinstance\<close>
  is called.
\<close>

definition isinstance_sklearn :: "'m model_arg \<Rightarrow> pyerr + bool" where
  "isinstance_sklearn model = Inl NameError"

text \<open>
  The \<^verbatim>\<open>if\<close>/\<^verbatim>\<open>elif\<close> chain in the order of the source. \<open>C\<close> is the value
  \<^verbatim>\<open>.1/Cscale\<close> of line 80.
\<close>

definition create_model ::
  "'m model_arg \<Rightarrow> int \<Rightarrow> int \<Rightarrow> int \<Rightarrow> string list option \<Rightarrow> bool \<Rightarrow> rat
     \<Rightarrow> pyerr + 'm made" where
  "create_model model tau offset rank evtlabs center C =
     (case model of Instance m \<Rightarrow> Inr (AsIs m)
      | _ \<Rightarrow>
     if model = Token ''cca'' \<or> model = NoModel then
       Inr (New (MultiCCA tau offset rank evtlabs center))
     else if model = Token ''bwd'' then
       Inr (New (BwdLinearRegression tau offset evtlabs center))
     else if model = Token ''fwd'' then
       Inr (New (FwdLinearRegression tau offset evtlabs center))
     else if model = Token ''ridge'' then
       Inr (New (LinearSklearn tau offset evtlabs (Some (Ridge 0 center)) None))
     else if model = Token ''lr'' then
       Inr (New (LinearSklearn tau offset evtlabs (Some (LogisticRegression C center))
                  (Some True)))
     else if model = Token ''svr'' then
       Inr (New (LinearSklearn tau offset evtlabs (Some (LinearSVR C)) None))
     else if model = Token ''svc'' then
       Inr (New (LinearSklearn tau offset evtlabs (Some (LinearSVC C)) (Some True)))
     else
       ebind (isinstance_sklearn model) (\<lambda>b.
         if b then Inr (New (LinearSklearn tau offset evtlabs (Some PassedModel) (Some True)))
         else if model = Token ''linearsklearn'' then
           Inr (New (LinearSklearn tau offset evtlabs None None))
         else Inl NotImplementedError))"

subsection \<open>Virtual outputs (lines 106-110)\<close>

text \<open>
  The stimulus tensor \<open>Y\<close> has the axes (trial, sample, output) and is a list of trials,
  each a list of samples, each the list of the values of the outputs.
\<close>

type_synonym 'y stim = "'y list list list"

definition stim_shape :: "nat \<Rightarrow> nat \<Rightarrow> nat \<Rightarrow> 'y stim \<Rightarrow> bool" where
  "stim_shape nT nS nY Y \<longleftrightarrow>
     length Y = nT \<and> list_all (\<lambda>trial. length trial = nS \<and>
                                list_all (\<lambda>row. length row = nY) trial) Y"

text \<open>
  Modelled from the spec: \<^verbatim>\<open>block_permute\<close> of \<^verbatim>\<open>mindaffectBCI/decoder/utils.py\<close>
  is imported by the source and is not part of it. The spec calls its result
  ``virtual (permuted/shuffled) extra output channels'' and has \<^verbatim>\<open>n_virt_out=2\<close> turn
  one output into three: for every trial and every sample of \<open>Y\<close> it yields
  \<open>n\<close> values. Which values is left open: \<open>virt t s k\<close> is the value of virtual output
  \<open>k\<close> at sample \<open>s\<close> of trial \<open>t\<close>.
\<close>

definition block_permute :: "(nat \<Rightarrow> nat \<Rightarrow> nat \<Rightarrow> 'y) \<Rightarrow> 'y stim \<Rightarrow> nat \<Rightarrow> 'y stim" where
  "block_permute virt Y n =
     map (\<lambda>t. map (\<lambda>s. map (virt t s) [0..<n]) [0..<length (Y ! t)]) [0..<length Y]"

text \<open>
  \<^verbatim>\<open>np.concatenate((Y, Y_virt), -1)\<close>: the rows of the two tensors are joined sample
  by sample. The other two axes have to agree, else numpy raises \<^verbatim>\<open>ValueError\<close>.
\<close>

definition concatenate_last :: "'y stim \<Rightarrow> 'y stim \<Rightarrow> pyerr + 'y stim" where
  "concatenate_last Y Y_virt =
     (if map length Y = map length Y_virt
      then Inr (map2 (map2 (@)) Y Y_virt)
      else Inl ValueError)"

definition add_virtual_outputs ::
  "(nat \<Rightarrow> nat \<Rightarrow> nat \<Rightarrow> 'y) \<Rightarrow> nat option \<Rightarrow> 'y stim \<Rightarrow> pyerr + 'y stim" where
  "add_virtual_outputs virt n_virt_out Y =
     (case n_virt_out of
        None \<Rightarrow> Inr Y
      | Some n \<Rightarrow> concatenate_last Y (block_permute virt Y n))"

subsection \<open>Train/test split (lines 112-122)\<close>

text \<open>
  \<^verbatim>\<open>test_idx\<close> is a list of integers. An index \<open>i\<close> of an axis of length \<open>n\<close> is valid
  for \<open>-n \<le> i < n\<close>, a negative one counting from the end; any other raises
  \<^verbatim>\<open>IndexError\<close>.
\<close>

definition norm_index :: "nat \<Rightarrow> int \<Rightarrow> pyerr + nat" where
  "norm_index n i =
     (if - int n \<le> i \<and> i < int n
      then Inr (nat (if i < 0 then i + int n else i))
      else Inl IndexError)"

fun norm_indices :: "nat \<Rightarrow> int list \<Rightarrow> pyerr + nat list" where
  "norm_indices n [] = Inr []"
| "norm_indices n (i # rest) =
     ebind (norm_index n i) (\<lambda>j. ebind (norm_indices n rest) (\<lambda>js. Inr (j # js)))"

text \<open>
  \<^verbatim>\<open>test_ind = np.zeros((X.shape[0],),dtype=bool); test_ind[test_idx] = True\<close> and
  \<^verbatim>\<open>train_ind = np.logical_not(test_ind)\<close>.
\<close>

definition test_mask :: "nat \<Rightarrow> int list \<Rightarrow> pyerr + bool list" where
  "test_mask n test_idx =
     ebind (norm_indices n test_idx) (\<lambda>js. Inr (map (\<lambda>i. i \<in> set js) [0..<n]))"

text \<open>\<^verbatim>\<open>A[idx,...]\<close> for a list of integers: the rows in the order of the list.\<close>

definition take_rows :: "'a list \<Rightarrow> int list \<Rightarrow> pyerr + 'a list" where
  "take_rows A idx = ebind (norm_indices (length A) idx) (\<lambda>js. Inr (map (\<lambda>j. A ! j) js))"

text \<open>
  \<^verbatim>\<open>A[mask,...]\<close> for a boolean mask: the rows where the mask is true, in ascending
  position. A mask of another length than the axis raises \<^verbatim>\<open>IndexError\<close>.
\<close>

definition mask_rows :: "'a list \<Rightarrow> bool list \<Rightarrow> pyerr + 'a list" where
  "mask_rows A msk =
     (if length msk = length A
      then Inr (map snd (filter fst (zip msk A)))
      else Inl IndexError)"

subsection \<open>Splicing rows into a score tensor (lines 162-166)\<close>

text \<open>
  A score tensor is the list of its trials; what a trial holds (samples by outputs) is
  kept abstract, and so is a leading model axis, which \<^verbatim>\<open>...\<close> carries along.
  \<open>put_rows\<close> writes successive values to the positions where the mask is true.
\<close>

fun put_rows :: "bool list \<Rightarrow> 'a list \<Rightarrow> 'a list \<Rightarrow> 'a list" where
  "put_rows (True # msk) (a # A) (v # vs) = v # put_rows msk A vs"
| "put_rows (False # msk) (a # A) vs = a # put_rows msk A vs"
| "put_rows msk A vs = A"

text \<open>
  \<^verbatim>\<open>A[...,mask,:,:] = V\<close>. numpy broadcasts \<open>V\<close> to the shape of the selection: on
  the trial axis \<open>V\<close> has as many rows as the mask selects, or exactly one row, which
  is then written to every selected position. Anything else raises \<^verbatim>\<open>ValueError\<close>.
\<close>

definition count_true :: "bool list \<Rightarrow> nat" where
  "count_true msk = length (filter id msk)"

definition assign_rows :: "'a list \<Rightarrow> bool list \<Rightarrow> 'a list \<Rightarrow> pyerr + 'a list" where
  "assign_rows A msk V =
     (if length msk \<noteq> length A then Inl IndexError
      else if length V = count_true msk then Inr (put_rows msk A V)
      else if length V = 1 then Inr (put_rows msk A (replicate (count_true msk) (hd V)))
      else Inl ValueError)"

subsection \<open>Dictionaries and parameter values\<close>

text \<open>
  A dictionary with string keys is an association list in insertion order, its keys
  distinct. \<open>getitem\<close> is \<^verbatim>\<open>d[k]\<close>, \<open>setitem\<close> is \<^verbatim>\<open>d[k] = v\<close>.
\<close>

type_synonym 'v dict = "(string \<times> 'v) list"

definition getitem :: "'v dict \<Rightarrow> string \<Rightarrow> pyerr + 'v" where
  "getitem d k = (case map_of d k of None \<Rightarrow> Inl KeyError | Some v \<Rightarrow> Inr v)"

fun setitem :: "'v dict \<Rightarrow> string \<Rightarrow> 'v \<Rightarrow> 'v dict" where
  "setitem [] k v = [(k, v)]"
| "setitem ((k', v') # d) k v =
     (if k' = k then (k, v) # d else (k', v') # setitem d k v)"

text \<open>The values that occur in parameter grids and keyword arguments.\<close>

datatype pyval =
    PNone
  | PBool bool
  | PInt int
  | PNum rat
  | PStr string
  | PTuple "pyval list"

subsection \<open>The model adapter and the other collaborators\<close>

text \<open>
  The \<^verbatim>\<open>cv\<close> argument is a flag, a number of folds, or a tuple of train/test pairs
  (what \<^verbatim>\<open>analyse_train_test\<close> passes); line 125 tests its truth value.
\<close>

datatype cv_arg = CvBool bool | CvInt int | CvFolds "(pyslice \<times> pyslice) list"

fun truthy :: "cv_arg \<Rightarrow> bool" where
  "truthy (CvBool b) = b"
| "truthy (CvInt n) = (n \<noteq> 0)"
| "truthy (CvFolds fs) = (fs \<noteq> [])"

text \<open>
  What \<^verbatim>\<open>analyse_dataset\<close> calls and does not define: the adapter classes of
  \<^verbatim>\<open>model_fitting\<close>, sklearn's \<^verbatim>\<open>GridSearchCV\<close> and
  \<^verbatim>\<open>decodingCurveSupervised\<close>. They are parameters of the embedding. The adapter is
  an object with state: \<open>'m\<close> is that state, and a method that changes it returns the
  new one. Every call may raise.

  \<^item> \<open>build\<close>: the constructor call of lines 86-102;
  \<^item> \<open>reg_C\<close>: the value \<^verbatim>\<open>.1/np.sqrt(np.mean(X.ravel()**2))\<close> of lines 78-80;
  \<^item> \<open>is_MultiCCA\<close>: \<^verbatim>\<open>isinstance(clsfr,MultiCCA)\<close>;
  \<^item> \<open>grid_search\<close>: \<^verbatim>\<open>GridSearchCV(clsfr, tuned_parameters).fit(X, Y)\<close> followed by
    reading \<^verbatim>\<open>best_params_\<close>; the search works on clones and leaves \<^verbatim>\<open>clsfr\<close> as it is;
  \<^item> \<open>set_params\<close>, \<open>fit\<close>, \<open>cv_fit\<close>, \<open>predict\<close>, \<open>audc_score\<close>: the adapter's
    methods; \<open>cv_fit\<close> takes \<^verbatim>\<open>cv\<close>, \<^verbatim>\<open>ranks\<close> (\<open>None\<close> when not passed) and
    \<^verbatim>\<open>retrain_on_all\<close> and returns the result dictionary; \<open>predict\<close> takes
    \<^verbatim>\<open>dedup0\<close> (\<open>None\<close> when not passed);
  \<^item> \<open>decodingCurveSupervised\<close>: the decoding curve of a score tensor, with the
    hyper-parameters read from the adapter;
  \<^item> \<open>virt\<close>: the content of the virtual outputs that \<^verbatim>\<open>block_permute\<close> adds to a
    stimulus tensor.
\<close>

record ('m, 'x, 'y, 's, 'dc) collab =
  build :: "adapter_call \<Rightarrow> pyerr + 'm"
  reg_C :: "'x list \<Rightarrow> rat"
  is_MultiCCA :: "'m \<Rightarrow> bool"
  grid_search :: "'m \<Rightarrow> pyval list dict \<Rightarrow> 'x list \<Rightarrow> 'y stim \<Rightarrow> pyerr + pyval dict"
  set_params :: "'m \<Rightarrow> pyval dict \<Rightarrow> pyerr + 'm"
  fit :: "'m \<Rightarrow> 'x list \<Rightarrow> 'y stim \<Rightarrow> pyerr + 'm"
  cv_fit :: "'m \<Rightarrow> 'x list \<Rightarrow> 'y stim \<Rightarrow> cv_arg \<Rightarrow> int list option \<Rightarrow> bool
               \<Rightarrow> pyerr + ('m \<times> 's list dict)"
  predict :: "'m \<Rightarrow> 'x list \<Rightarrow> 'y stim \<Rightarrow> bool option \<Rightarrow> pyerr + 's list"
  audc_score :: "'m \<Rightarrow> 's list \<Rightarrow> pyerr + rat"
  decodingCurveSupervised :: "'m \<Rightarrow> 's list \<Rightarrow> pyerr + 'dc"
  virt :: "'y stim \<Rightarrow> nat \<Rightarrow> nat \<Rightarrow> nat \<Rightarrow> 'y"

text \<open>The arguments of \<^verbatim>\<open>analyse_dataset\<close>; \<^verbatim>\<open>**kwargs\<close> only reaches the constructors.\<close>

record ('m, 'x, 'y) call =
  arg_X :: "'x list"
  arg_Y :: "'y stim"
  arg_coords :: "axis list option"
  arg_model :: "'m model_arg"
  arg_test_idx :: "int list option"
  arg_cv :: cv_arg
  arg_n_virt_out :: "nat option"
  arg_tau_ms :: rat
  arg_fs :: "rat option"
  arg_rank :: int
  arg_evtlabs :: "string list option"
  arg_offset_ms :: rat
  arg_center :: bool
  arg_tuned_parameters :: "pyval list dict option"
  arg_ranks :: "int list option"
  arg_retrain_on_all :: bool

text \<open>A call that passes \<open>X\<close>, \<open>Y\<close> and \<open>coords\<close> and leaves every default.\<close>

definition default_call :: "'x list \<Rightarrow> 'y stim \<Rightarrow> axis list option \<Rightarrow> ('m, 'x, 'y) call" where
  "default_call X Y coords =
     \<lparr> arg_X = X, arg_Y = Y, arg_coords = coords, arg_model = Token ''cca'',
       arg_test_idx = None, arg_cv = CvBool True, arg_n_virt_out = None,
       arg_tau_ms = 300, arg_fs = None, arg_rank = 1, arg_evtlabs = None,
       arg_offset_ms = 0, arg_center = True, arg_tuned_parameters = None,
       arg_ranks = None, arg_retrain_on_all = True \<rparr>"

subsection \<open>The steps of \<^verbatim>\<open>analyse_dataset\<close>\<close>

text \<open>Lines 83-104 with the constructor call carried out.\<close>

definition make_clsfr ::
  "('m, 'x, 'y, 's, 'dc) collab \<Rightarrow> ('m, 'x, 'y) call \<Rightarrow> int \<Rightarrow> int \<Rightarrow> pyerr + 'm" where
  "make_clsfr ops a tau offset =
     ebind (create_model (arg_model a) tau offset (arg_rank a) (arg_evtlabs a)
              (arg_center a) (reg_C ops (arg_X a)))
       (\<lambda>made. case made of AsIs m \<Rightarrow> Inr m | New c \<Rightarrow> build ops c)"

text \<open>
  Lines 112-122. With \<^verbatim>\<open>test_idx\<close> the step also leaves \<^verbatim>\<open>train_ind\<close> and
  \<^verbatim>\<open>test_ind\<close> behind, which line 164 reads.
\<close>

definition train_test_split ::
  "'x list \<Rightarrow> 'y stim \<Rightarrow> int list option
     \<Rightarrow> pyerr + ('x list \<times> 'y stim \<times> (int list \<times> bool list \<times> bool list) option)" where
  "train_test_split X Y test_idx =
     (case test_idx of
        None \<Rightarrow> Inr (X, Y, None)
      | Some idx \<Rightarrow>
          ebind (test_mask (length X) idx) (\<lambda>test_ind.
          ebind (mask_rows X (map Not test_ind)) (\<lambda>X_train.
          ebind (mask_rows Y (map Not test_ind)) (\<lambda>Y_train.
          Inr (X_train, Y_train, Some (idx, map Not test_ind, test_ind))))))"

text \<open>
  Lines 124-153. With \<^verbatim>\<open>cv\<close> true: the optional grid search and
  \<^verbatim>\<open>set_params\<close>, then \<^verbatim>\<open>cv_fit\<close>, with \<^verbatim>\<open>ranks\<close> only for a \<^verbatim>\<open>MultiCCA\<close>, and
  \<^verbatim>\<open>Fy = res['estimator']\<close>. With \<^verbatim>\<open>cv\<close> false: \<^verbatim>\<open>fit\<close> on the training trials,
  \<^verbatim>\<open>predict\<close> on all of \<open>X\<close>, and \<^verbatim>\<open>res = dict(estimator=Fy)\<close>.
\<close>

definition tune ::
  "('m, 'x, 'y, 's, 'dc) collab \<Rightarrow> 'm \<Rightarrow> pyval list dict option \<Rightarrow> 'x list \<Rightarrow> 'y stim
     \<Rightarrow> pyerr + 'm" where
  "tune ops clsfr tuned_parameters X_train Y_train =
     (case tuned_parameters of
        None \<Rightarrow> Inr clsfr
      | Some grid \<Rightarrow>
          ebind (grid_search ops clsfr grid X_train Y_train) (\<lambda>best_params.
          set_params ops clsfr best_params))"

definition fit_model ::
  "('m, 'x, 'y, 's, 'dc) collab \<Rightarrow> 'm \<Rightarrow> ('m, 'x, 'y) call \<Rightarrow> 'x list \<Rightarrow> 'y stim \<Rightarrow> 'y stim
     \<Rightarrow> pyerr + ('m \<times> 's list dict \<times> 's list)" where
  "fit_model ops clsfr a X_train Y_train Y =
     (if truthy (arg_cv a) then
        ebind (tune ops clsfr (arg_tuned_parameters a) X_train Y_train) (\<lambda>clsfr.
        ebind (cv_fit ops clsfr X_train Y_train (arg_cv a)
                 (if arg_ranks a \<noteq> None \<and> is_MultiCCA ops clsfr then arg_ranks a else None)
                 (arg_retrain_on_all a)) (\<lambda>(clsfr, res).
        ebind (getitem res ''estimator'') (\<lambda>Fy.
        Inr (clsfr, res, Fy))))
      else
        ebind (fit ops clsfr X_train Y_train) (\<lambda>clsfr.
        ebind (predict ops clsfr (arg_X a) Y (Some True)) (\<lambda>Fy.
        Inr (clsfr, [(''estimator'', Fy)], Fy))))"

text \<open>Line 156.\<close>

definition raw_scores :: "'s list dict \<Rightarrow> 's list \<Rightarrow> 's list" where
  "raw_scores res Fy = (case map_of res ''rawestimator'' of Some r \<Rightarrow> r | None \<Rightarrow> Fy)"

text \<open>
  Lines 158-167: predict on \<^verbatim>\<open>X[test_idx,...]\<close>, write the training rows and the
  test rows into a tensor of zeros with \<^verbatim>\<open>X.shape[0]\<close> trials, and store it under
  \<^verbatim>\<open>'rawestimator'\<close>.
\<close>

definition splice_test ::
  "('m, 'x, 'y, 's::zero, 'dc) collab \<Rightarrow> 'm \<Rightarrow> 'x list \<Rightarrow> 'y stim
     \<Rightarrow> (int list \<times> bool list \<times> bool list) option \<Rightarrow> 's list dict \<Rightarrow> 's list
     \<Rightarrow> pyerr + ('s list \<times> 's list dict)" where
  "splice_test ops clsfr X Y split res Fy =
     (case split of
        None \<Rightarrow> Inr (raw_scores res Fy, res)
      | Some (test_idx, train_ind, test_ind) \<Rightarrow>
          ebind (take_rows X test_idx) (\<lambda>X_test.
          ebind (take_rows Y test_idx) (\<lambda>Y_test.
          ebind (predict ops clsfr X_test Y_test None) (\<lambda>Fy_test.
          ebind (assign_rows (replicate (length X) 0) train_ind (raw_scores res Fy)) (\<lambda>allFy.
          ebind (assign_rows allFy test_ind Fy_test) (\<lambda>allFy.
          Inr (allFy, setitem res ''rawestimator'' allFy)))))))"

text \<open>The function, lines 40-177. It returns the tuple \<^verbatim>\<open>score, dc, Fy, clsfr, res\<close>.\<close>

definition analyse_dataset ::
  "('m, 'x, 'y, 's::zero, 'dc) collab \<Rightarrow> ('m, 'x, 'y) call
     \<Rightarrow> pyerr + (rat \<times> 'dc \<times> 's list \<times> 'm \<times> 's list dict)" where
  "analyse_dataset ops a =
     ebind (tau_offset (arg_coords a) (arg_fs a) (arg_tau_ms a) (arg_offset_ms a))
       (\<lambda>(tau, offset).
     ebind (make_clsfr ops a tau offset) (\<lambda>clsfr.
     ebind (add_virtual_outputs (virt ops (arg_Y a)) (arg_n_virt_out a) (arg_Y a)) (\<lambda>Y.
     ebind (train_test_split (arg_X a) Y (arg_test_idx a)) (\<lambda>(X_train, Y_train, split).
     ebind (fit_model ops clsfr a X_train Y_train Y) (\<lambda>(clsfr, res, Fy).
     ebind (splice_test ops clsfr (arg_X a) Y split res Fy) (\<lambda>(rawFy, res).
     ebind (audc_score ops clsfr rawFy) (\<lambda>score.
     ebind (decodingCurveSupervised ops clsfr rawFy) (\<lambda>dc.
     Inr (score, dc, Fy, clsfr, res)))))))))"

section \<open>\<^verbatim>\<open>dataset_GridSearchCV\<close>\<close>

text \<open>
  Keyword-argument dictionaries are compared by \<^verbatim>\<open>==\<close>: the same keys with the same
  values, in any order. \<^verbatim>\<open>k.startswith(p)\<close> and \<^verbatim>\<open>k[len(p)+1:]\<close> are the string
  operations of lines 927-936.
\<close>

definition dict_eq :: "pyval dict \<Rightarrow> pyval dict \<Rightarrow> bool" where
  "dict_eq d e \<longleftrightarrow>
     list_all (\<lambda>(k, v). map_of e k = Some v) d \<and> list_all (\<lambda>(k, v). map_of d k = Some v) e"

definition startswith :: "string \<Rightarrow> string \<Rightarrow> bool" where
  "startswith k p \<longleftrightarrow> take (length p) k = p"

definition strip_group :: "string \<Rightarrow> string \<Rightarrow> string" where
  "strip_group p k = drop (length p + 1) k"

text \<open>
  Lines 921-939: the copies of the argument dictionaries and of \<^verbatim>\<open>model\<close>, overridden
  by the entries of one grid configuration in the order of its items.
\<close>

record overrides =
  clsfr_args_f :: "pyval dict"
  kwargs_f :: "pyval dict"
  loader_args_f :: "pyval dict"
  preprocess_args_f :: "pyval dict"
  model_f :: pyval

definition override :: "overrides \<Rightarrow> string \<times> pyval \<Rightarrow> overrides" where
  "override ov item =
     (case item of (k, v) \<Rightarrow>
        if startswith k ''clsfr_args'' then
          ov\<lparr>clsfr_args_f := setitem (clsfr_args_f ov) (strip_group ''clsfr_args'' k) v\<rparr>
        else if startswith k ''loader_args'' then
          ov\<lparr>loader_args_f := setitem (loader_args_f ov) (strip_group ''loader_args'' k) v\<rparr>
        else if startswith k ''preprocess_args'' then
          ov\<lparr>preprocess_args_f :=
               setitem (preprocess_args_f ov) (strip_group ''preprocess_args'' k) v\<rparr>
        else if startswith k ''model'' then ov\<lparr>model_f := v\<rparr>
        else ov\<lparr>kwargs_f := setitem (kwargs_f ov) k v\<rparr>)"

definition apply_config ::
  "pyval dict \<Rightarrow> pyval \<Rightarrow> pyval dict \<Rightarrow> pyval dict \<Rightarrow> pyval dict \<Rightarrow> pyval dict \<Rightarrow> overrides" where
  "apply_config loader_args model clsfr_args preprocess_args kwargs fit_config =
     foldl override
       \<lparr> clsfr_args_f = clsfr_args, kwargs_f = kwargs, loader_args_f = loader_args,
         preprocess_args_f = preprocess_args, model_f = model \<rparr>
       fit_config"

text \<open>
  The collaborators: the dataset loader, \<^verbatim>\<open>preprocess\<close>, and \<^verbatim>\<open>analyse_dataset\<close>
  called with keyword dictionaries, of which the caller keeps score and decoding curve.
  \<open>'d\<close> is the triple \<^verbatim>\<open>(X, Y, coords)\<close>. The calls are functions of their arguments:
  the same file loaded with the same arguments gives the same data, and \<^verbatim>\<open>preprocess\<close>
  returns new data and leaves its input as it was.
\<close>

record ('d, 'sc, 'dc) sweep =
  loader :: "string \<Rightarrow> pyval dict \<Rightarrow> pyerr + 'd"
  preprocess :: "'d \<Rightarrow> pyval option \<Rightarrow> pyval dict \<Rightarrow> pyerr + 'd"
  analyse :: "'d \<Rightarrow> pyval \<Rightarrow> pyval dict \<Rightarrow> pyval dict \<Rightarrow> pyerr + ('sc \<times> 'dc)"

text \<open>An entry of the result list, a dictionary with these six keys.\<close>

record ('sc, 'dc) entry =
  res_config :: "pyval dict"
  res_loader_args :: "pyval dict"
  res_clsfr_args :: "pyval dict"
  res_filenames :: "string list"
  res_scores :: "'sc list"
  res_decoding_curves :: "'dc list"

text \<open>
  Lines 964-974: pad the list with \<^verbatim>\<open>None\<close> up to index \<open>ci\<close>, then create the entry
  or append to it.
\<close>

definition store ::
  "('sc, 'dc) entry option list \<Rightarrow> nat \<Rightarrow> pyval dict \<Rightarrow> pyval dict \<Rightarrow> pyval dict \<Rightarrow> string
     \<Rightarrow> 'sc \<Rightarrow> 'dc \<Rightarrow> ('sc, 'dc) entry option list" where
  "store res ci fit_config loader_args clsfr_args_f' filename score decoding_curve =
     (let res' = (if length res \<le> ci then res @ replicate (ci + 1 - length res) None else res)
      in res'[ci :=
           Some (case res' ! ci of
                   None \<Rightarrow>
                     \<lparr> res_config = fit_config, res_loader_args = loader_args,
                       res_clsfr_args = clsfr_args_f', res_filenames = [filename],
                       res_scores = [score], res_decoding_curves = [decoding_curve] \<rparr>
                 | Some r \<Rightarrow>
                     r\<lparr> res_filenames := res_filenames r @ [filename],
                       res_scores := res_scores r @ [score],
                       res_decoding_curves := res_decoding_curves r @ [decoding_curve] \<rparr>)])"

text \<open>
  Lines 957-960. \<^verbatim>\<open>preprocess\<close> receives the loaded data, \<^verbatim>\<open>test_idx\<close> from the
  function's own \<^verbatim>\<open>kwargs\<close>, and the overridden preprocessing arguments; a key passed
  twice to a call raises \<^verbatim>\<open>TypeError\<close>. No \<^verbatim>\<open>try\<close> encloses the two calls (the source
  has it commented out), so what they raise leaves the function.
\<close>

definition analyse_config ::
  "('d, 'sc, 'dc) sweep \<Rightarrow> pyval dict \<Rightarrow> overrides \<Rightarrow> 'd \<Rightarrow> pyerr + ('sc \<times> 'dc)" where
  "analyse_config env kwargs ov d =
     (if map_of (preprocess_args_f ov) ''test_idx'' \<noteq> None then Inl TypeError
      else
        ebind (preprocess env d (map_of kwargs ''test_idx'') (preprocess_args_f ov)) (\<lambda>d'.
        if list_ex (\<lambda>k. map_of (kwargs_f ov) k \<noteq> None) (map fst (clsfr_args_f ov))
        then Inl TypeError
        else analyse env d' (model_f ov) (clsfr_args_f ov) (kwargs_f ov)))"

text \<open>
  The body of the loop, lines 920-974, for configuration number \<open>ci\<close>. The state is the
  result list and the data loaded last (\<^verbatim>\<open>oX, oY, ocoords\<close>, unbound before the first
  successful load). \<open>None\<close> is the \<^verbatim>\<open>continue\<close> of line 948.
\<close>

definition load_step ::
  "('d, 'sc, 'dc) sweep \<Rightarrow> string \<Rightarrow> pyval dict \<Rightarrow> overrides \<Rightarrow> nat \<Rightarrow> 'd option
     \<Rightarrow> 'd option option" where
  "load_step env filename loader_args ov ci loaded =
     (if ci = 0 \<or> \<not> dict_eq (loader_args_f ov) loader_args then
        (case loader env filename loader_args of
           Inl e \<Rightarrow> None
         | Inr d \<Rightarrow> Some (Some d))
      else Some loaded)"

definition config_step ::
  "('d, 'sc, 'dc) sweep \<Rightarrow> string \<Rightarrow> pyval dict \<Rightarrow> pyval \<Rightarrow> pyval dict \<Rightarrow> pyval dict
     \<Rightarrow> pyval dict \<Rightarrow> ('sc, 'dc) entry option list \<times> 'd option \<Rightarrow> nat \<Rightarrow> pyval dict
     \<Rightarrow> pyerr + (('sc, 'dc) entry option list \<times> 'd option)" where
  "config_step env filename loader_args model clsfr_args preprocess_args kwargs st ci
       fit_config =
     (let ov = apply_config loader_args model clsfr_args preprocess_args kwargs fit_config
      in case load_step env filename loader_args ov ci (snd st) of
           None \<Rightarrow> Inr st
         | Some None \<Rightarrow> Inl UnboundLocalError
         | Some (Some d) \<Rightarrow>
             ebind (analyse_config env kwargs ov d) (\<lambda>(score, decoding_curve).
             Inr (store (fst st) ci fit_config loader_args (clsfr_args_f ov) filename
                    score decoding_curve, Some d)))"

text \<open>
  The loop over \<^verbatim>\<open>enumerate(ParameterGrid(tuned_parameters))\<close>. \<open>grid\<close> is the list of
  configurations that sklearn's \<^verbatim>\<open>ParameterGrid\<close> enumerates, each a dictionary.
\<close>

fun config_loop ::
  "('d, 'sc, 'dc) sweep \<Rightarrow> string \<Rightarrow> pyval dict \<Rightarrow> pyval \<Rightarrow> pyval dict \<Rightarrow> pyval dict
     \<Rightarrow> pyval dict \<Rightarrow> ('sc, 'dc) entry option list \<times> 'd option \<Rightarrow> nat \<Rightarrow> pyval dict list
     \<Rightarrow> pyerr + (('sc, 'dc) entry option list \<times> 'd option)" where
  "config_loop env filename loader_args model clsfr_args preprocess_args kwargs st ci [] =
     Inr st"
| "config_loop env filename loader_args model clsfr_args preprocess_args kwargs st ci
       (fit_config # grid) =
     ebind (config_step env filename loader_args model clsfr_args preprocess_args kwargs
              st ci fit_config)
       (\<lambda>st'. config_loop env filename loader_args model clsfr_args preprocess_args kwargs
                st' (Suc ci) grid)"


section \<open>\<^verbatim>\<open>concurrent_datasets_GridSearchCV\<close>: collecting the results\<close>





section \<open>A small instance\<close>

text \<open>
  Concrete collaborators on which the definitions can be evaluated. A trial of \<open>X\<close> is
  its number; the adapter's state is its parameters and the trials it was last fitted
  on. The cross-validated score of trial \<open>x\<close> is \<open>100 + x\<close>, its prediction is
  \<open>200 + x\<close>. The grid search picks the last value listed for every parameter.
\<close>

definition demo_ops :: "(pyval dict \<times> nat list, nat, nat, nat, nat) collab" where
  "demo_ops =
     \<lparr> build = (\<lambda>c. Inr ([], [])),
       reg_C = (\<lambda>X. 1),
       is_MultiCCA = (\<lambda>m. True),
       grid_search = (\<lambda>m grid X Y.
         Inr (map (\<lambda>(k, vs). (k, case vs of [] \<Rightarrow> PNone | v # rest \<Rightarrow> last (v # rest))) grid)),
       set_params = (\<lambda>m params. Inr (params, snd m)),
       fit = (\<lambda>m X Y. Inr (fst m, X)),
       cv_fit = (\<lambda>m X Y cv ranks retrain.
         Inr ((fst m, X), [(''estimator'', map (\<lambda>x. 100 + x) X)])),
       predict = (\<lambda>m X Y dedup0. Inr (map (\<lambda>x. 200 + x) X)),
       audc_score = (\<lambda>m Fy. Inr 0),
       decodingCurveSupervised = (\<lambda>m Fy. Inr (length Fy)),
       virt = (\<lambda>Y t s k. 0) \<rparr>"

text \<open>Two axes with names, the second with a sample rate of 100 Hz.\<close>

definition demo_coords :: "axis list" where
  "demo_coords =
     [\<lparr> ax_name = Some ''trial'', ax_fs = None \<rparr>,
      \<lparr> ax_name = Some ''time'', ax_fs = Some 100 \<rparr>]"

text \<open>A stimulus tensor with \<open>n\<close> trials of one sample and one output.\<close>

definition demo_Y :: "nat \<Rightarrow> nat stim" where
  "demo_Y n = replicate n [[1]]"

text \<open>
  Collaborators for the sweep. The data of a file is its name with the arguments it was
  loaded with. The file \<^verbatim>\<open>missing.txt\<close> cannot be loaded; the analysis of
  \<^verbatim>\<open>empty.txt\<close> raises \<^verbatim>\<open>ValueError\<close>, and any analysis raises what the model
  construction of \<^verbatim>\<open>analyse_dataset\<close> raises for the model it is given. The score is
  the number of arguments the data was loaded with, the decoding curve is the file name.
\<close>

definition model_of :: "pyval \<Rightarrow> unit model_arg" where
  "model_of v = (case v of PStr t \<Rightarrow> Token t | PNone \<Rightarrow> NoModel | _ \<Rightarrow> OtherObject)"

definition demo_sweep :: "(string \<times> pyval dict, nat, string) sweep" where
  "demo_sweep =
     \<lparr> loader = (\<lambda>filename args.
         if filename = ''missing.txt'' then Inl (PyErr ''FileNotFoundError'')
         else Inr (filename, args)),
       preprocess = (\<lambda>d test_idx args. Inr d),
       analyse = (\<lambda>d model clsfr_args kwargs.
         if fst d = ''empty.txt'' then Inl ValueError
         else ebind (create_model (model_of model) 30 0 1 None True 1)
                (\<lambda>made. Inr (length (snd d), fst d))) \<rparr>"

section \<open>Properties\<close>

subsection \<open>Sequencing\<close>

lemma ebind_Inl [simp]: "ebind (Inl e) f = Inl e"
  by (simp add: ebind_def)

lemma ebind_Inr [simp]: "ebind (Inr v) f = f v"
  by (simp add: ebind_def)

lemma ebind_eq_Inr: "ebind r f = Inr y \<longleftrightarrow> (\<exists>v. r = Inr v \<and> f v = Inr y)"
  by (cases r) simp_all

subsection \<open>Growing-window folds\<close>

lemma lt_bound_iff:
  fixes s N k :: nat
  assumes "0 < s" "0 < N"
  shows "k < Suc ((N - 1) div s) \<longleftrightarrow> k * s < N"
proof -
  have "k \<le> (N - 1) div s \<longleftrightarrow> k * s \<le> N - 1"
    using assms by (simp add: less_eq_div_iff_mult_less_eq)
  then show ?thesis using assms by auto
qed

lemma range_up_multiples:
  assumes "0 < s" "0 < N"
  shows "range_up (int j * int s) (int N) (int s) =
         map (\<lambda>k. int k * int s) [j..<Suc ((N - 1) div s)]"
proof (induction "Suc ((N - 1) div s) - j" arbitrary: j)
  case 0
  then have "\<not> j < Suc ((N - 1) div s)" by simp
  then have "\<not> j * s < N" using lt_bound_iff[OF assms] by simp
  then have "\<not> int j * int s < int N"
    by (metis of_nat_less_iff of_nat_mult)
  then show ?case using 0 by simp
next
  case (Suc d)
  then have lt: "j < Suc ((N - 1) div s)" by simp
  then have "j * s < N" using lt_bound_iff[OF assms] by simp
  then have c: "int j * int s < int N"
    by (metis of_nat_less_iff of_nat_mult)
  have d: "d = Suc ((N - 1) div s) - Suc j" using Suc by simp
  have "range_up (int (Suc j) * int s) (int N) (int s) =
        map (\<lambda>k. int k * int s) [Suc j..<Suc ((N - 1) div s)]"
    by (rule Suc.hyps(1)[OF d])
  moreover have "int j * int s + int s = int (Suc j) * int s"
    by (simp add: algebra_simps)
  ultimately show ?case using c assms lt
    by (simp add: upt_conv_Cons del: upt_Suc)
qed

lemma fold_indices_growing:
  assumes "0 < step" "k * nat step < n"
  shows "fold_indices n [(Slice None (Some (int k * step)), Slice (Some (int k * step)) None)]
         = Inr ([0..<k * nat step], [k * nat step..<n])"
proof -
  have "nat (int k * step) = k * nat step" using assms(1) by (simp add: nat_mult_distrib)
  moreover have "\<not> int k * step < 0" using assms(1) by (simp add: not_less)
  ultimately show ?thesis using assms by (simp add: slice_bound_def)
qed

text \<open>
  Claim C2. For \<open>0 < step < nTrials\<close> the integer branch of \<^verbatim>\<open>analyse_train_test\<close>
  builds exactly one fold for every \<open>k \<ge> 1\<close> with \<open>k * step < nTrials\<close>, in ascending
  order of \<open>k\<close>; fold \<open>k\<close> trains on the trials \<open>[0, k * step)\<close> and tests on
  \<open>[k * step, nTrials)\<close>; the two index sets of a fold are disjoint, and the sizes of
  the training sets strictly increase along the list of folds.
\<close>

theorem growing_window_folds:
  assumes "0 < step" and "step < int nTrials"
  shows "growing_splits nTrials step =
           Inr (map (\<lambda>k. [(Slice None (Some (int k * step)), Slice (Some (int k * step)) None)])
                  [1..<Suc ((nTrials - 1) div nat step)])
       \<and> (\<forall>k. k \<in> set [1..<Suc ((nTrials - 1) div nat step)] \<longleftrightarrow>
              1 \<le> k \<and> int k * step < int nTrials)
       \<and> (\<forall>k \<in> set [1..<Suc ((nTrials - 1) div nat step)].
              fold_indices nTrials
                [(Slice None (Some (int k * step)), Slice (Some (int k * step)) None)]
              = Inr ([0..<k * nat step], [k * nat step..<nTrials])
            \<and> set [0..<k * nat step] \<inter> set [k * nat step..<nTrials] = {})
       \<and> sorted_wrt (<) (map (\<lambda>k. length [0..<k * nat step])
                             [1..<Suc ((nTrials - 1) div nat step)])"
proof -
  define s where "s = nat step"
  have s: "0 < s" "step = int s" using assms by (simp_all add: s_def)
  have N: "0 < nTrials" using assms by simp
  have iff: "\<And>k. k < Suc ((nTrials - 1) div s) \<longleftrightarrow> k * s < nTrials"
    using lt_bound_iff[OF s(1) N] by simp
  have "range_up step (int nTrials) step = map (\<lambda>k. int k * step) [1..<Suc ((nTrials - 1) div s)]"
    using range_up_multiples[OF s(1) N, of 1] s by simp
  then have A: "growing_splits nTrials step =
           Inr (map (\<lambda>k. [(Slice None (Some (int k * step)), Slice (Some (int k * step)) None)])
                  [1..<Suc ((nTrials - 1) div nat step)])"
    using assms by (simp add: growing_splits_def py_range_def s_def comp_def)
  have B: "\<forall>k. k \<in> set [1..<Suc ((nTrials - 1) div nat step)] \<longleftrightarrow>
              1 \<le> k \<and> int k * step < int nTrials"
  proof
    fix k
    have "int k * step < int nTrials \<longleftrightarrow> k * s < nTrials"
      unfolding s(2) by (metis of_nat_less_iff of_nat_mult)
    then show "k \<in> set [1..<Suc ((nTrials - 1) div nat step)] \<longleftrightarrow>
              1 \<le> k \<and> int k * step < int nTrials"
      using iff[of k] by (auto simp: s_def)
  qed
  have C: "\<forall>k \<in> set [1..<Suc ((nTrials - 1) div nat step)].
              fold_indices nTrials
                [(Slice None (Some (int k * step)), Slice (Some (int k * step)) None)]
              = Inr ([0..<k * nat step], [k * nat step..<nTrials])
            \<and> set [0..<k * nat step] \<inter> set [k * nat step..<nTrials] = {}"
  proof
    fix k assume "k \<in> set [1..<Suc ((nTrials - 1) div nat step)]"
    then have "k < Suc ((nTrials - 1) div s)" by (simp add: s_def del: upt_Suc)
    then have "k * nat step < nTrials" using iff[of k] by (simp add: s_def)
    then show "fold_indices nTrials
                [(Slice None (Some (int k * step)), Slice (Some (int k * step)) None)]
              = Inr ([0..<k * nat step], [k * nat step..<nTrials])
            \<and> set [0..<k * nat step] \<inter> set [k * nat step..<nTrials] = {}"
      using fold_indices_growing[OF assms(1)] by auto
  qed
  have D: "sorted_wrt (<) (map (\<lambda>k. length [0..<k * nat step])
                             [1..<Suc ((nTrials - 1) div nat step)])"
  proof -
    have "sorted_wrt (<) [1..<Suc ((nTrials - 1) div nat step)]"
      by (rule sorted_wrt_upt)
    then have "sorted_wrt (\<lambda>a b. a * nat step < b * nat step)
                 [1..<Suc ((nTrials - 1) div nat step)]"
      by (rule sorted_wrt_mono_rel[rotated]) (use assms(1) in simp)
    then show ?thesis by (simp add: sorted_wrt_map del: upt_Suc)
  qed
  show ?thesis using A B C D by blast
qed

theorem growing_window_folds_witness:
  "(0::int) < 3 \<and> 3 < int 10
   \<and> growing_splits 10 3 =
        Inr [[(Slice None (Some 3), Slice (Some 3) None)],
             [(Slice None (Some 6), Slice (Some 6) None)],
             [(Slice None (Some 9), Slice (Some 9) None)]]"
proof -
  have h1: "(0::int) < 3" and h2: "(3::int) < int 10" by simp_all
  have e: "[1..<Suc ((10 - 1) div nat 3)] = [1, 2, 3]" by (simp add: upt_conv_Cons)
  from growing_window_folds[OF h1 h2]
  have "growing_splits 10 3 =
          Inr (map (\<lambda>k. [(Slice None (Some (int k * 3)), Slice (Some (int k * 3)) None)])
                 [1..<Suc ((10 - 1) div nat 3)])"
    by blast
  with e show ?thesis by simp
qed

subsection \<open>Model construction\<close>

lemma create_model_tokens:
  "create_model (Token ''cca'') tau offset rank evtlabs center C =
     Inr (New (MultiCCA tau offset rank evtlabs center))"
  "create_model NoModel tau offset rank evtlabs center C =
     Inr (New (MultiCCA tau offset rank evtlabs center))"
  "create_model (Token ''bwd'') tau offset rank evtlabs center C =
     Inr (New (BwdLinearRegression tau offset evtlabs center))"
  "create_model (Token ''fwd'') tau offset rank evtlabs center C =
     Inr (New (FwdLinearRegression tau offset evtlabs center))"
  "create_model (Token ''ridge'') tau offset rank evtlabs center C =
     Inr (New (LinearSklearn tau offset evtlabs (Some (Ridge 0 center)) None))"
  "create_model (Token ''lr'') tau offset rank evtlabs center C =
     Inr (New (LinearSklearn tau offset evtlabs (Some (LogisticRegression C center)) (Some True)))"
  "create_model (Token ''svr'') tau offset rank evtlabs center C =
     Inr (New (LinearSklearn tau offset evtlabs (Some (LinearSVR C)) None))"
  "create_model (Token ''svc'') tau offset rank evtlabs center C =
     Inr (New (LinearSklearn tau offset evtlabs (Some (LinearSVC C)) (Some True)))"
  "create_model (Instance m) tau offset rank evtlabs center C = Inr (AsIs m)"
  by (simp_all add: create_model_def)

lemma create_model_other_token:
  assumes "t \<notin> {''cca'', ''bwd'', ''fwd'', ''ridge'', ''lr'', ''svr'', ''svc''}"
  shows "create_model (Token t) tau offset rank evtlabs center C = Inl NameError"
  using assms by (simp add: create_model_def isinstance_sklearn_def)

text \<open>
  Claim C3. The tokens \<^verbatim>\<open>cca\<close>, \<^verbatim>\<open>bwd\<close>, \<^verbatim>\<open>fwd\<close>, \<^verbatim>\<open>ridge\<close>, \<^verbatim>\<open>lr\<close>,
  \<^verbatim>\<open>svr\<close> and \<^verbatim>\<open>svc\<close> build their adapter and an instance is used as it is
  (\<open>create_model_tokens\<close>). The token \<^verbatim>\<open>linearsklearn\<close> does not: the chain reaches
  line 99 first, whose unbound name \<^verbatim>\<open>sklearn\<close> raises \<^verbatim>\<open>NameError\<close>; for the same
  reason a token that is not recognised raises \<^verbatim>\<open>NameError\<close> and never the
  \<^verbatim>\<open>NotImplementedError\<close> of line 104.
\<close>

theorem create_model_linearsklearn:
  "create_model (Token ''linearsklearn'') tau offset rank evtlabs center C = Inl NameError
   \<and> create_model (Token ''nosuchmodel'') tau offset rank evtlabs center C = Inl NameError"
  by (simp add: create_model_def isinstance_sklearn_def)

subsection \<open>Sample rate\<close>








subsection \<open>Virtual outputs\<close>

lemma length_block_permute: "map length (block_permute vf Y n) = map length Y"
  by (rule nth_equalityI) (simp_all add: block_permute_def)

lemma joined_rows:
  "map2 (map2 (@)) Y (block_permute vf Y n) =
     map (\<lambda>t. map (\<lambda>s. Y ! t ! s @ map (vf t s) [0..<n]) [0..<length (Y ! t)])
       [0..<length Y]"
proof (rule nth_equalityI)
  show "length (map2 (map2 (@)) Y (block_permute vf Y n)) =
        length (map (\<lambda>t. map (\<lambda>s. Y ! t ! s @ map (vf t s) [0..<n]) [0..<length (Y ! t)])
                  [0..<length Y])"
    by (simp add: block_permute_def)
next
  fix t assume "t < length (map2 (map2 (@)) Y (block_permute vf Y n))"
  then have t: "t < length Y" by (simp add: block_permute_def)
  have "map2 (@) (Y ! t) (map (\<lambda>s. map (vf t s) [0..<n]) [0..<length (Y ! t)]) =
        map (\<lambda>s. Y ! t ! s @ map (vf t s) [0..<n]) [0..<length (Y ! t)]"
    by (rule nth_equalityI) simp_all
  then show "map2 (map2 (@)) Y (block_permute vf Y n) ! t =
        map (\<lambda>t. map (\<lambda>s. Y ! t ! s @ map (vf t s) [0..<n]) [0..<length (Y ! t)])
          [0..<length Y] ! t"
    using t by (simp add: block_permute_def)
qed

lemma add_virtual_rows:
  "add_virtual_outputs vf (Some n) Y =
     Inr (map (\<lambda>t. map (\<lambda>s. Y ! t ! s @ map (vf t s) [0..<n]) [0..<length (Y ! t)])
            [0..<length Y])"
  by (simp add: add_virtual_outputs_def concatenate_last_def length_block_permute
      joined_rows)

text \<open>
  Claim C5. For a stimulus tensor of shape \<open>(nT, nS, nY)\<close> and \<^verbatim>\<open>n_virt_out = n\<close>, the
  augmentation of lines 106-110 succeeds and gives a tensor of shape \<open>(nT, nS, nY + n)\<close>
  whose first \<open>nY\<close> columns are the original tensor. Scenario D is the instance
  \<open>nY = 1\<close>, \<open>n = 2\<close>.
\<close>

theorem virtual_outputs_shape:
  assumes "stim_shape nT nS nY Y"
  shows "\<exists>Y'. add_virtual_outputs vf (Some n) Y = Inr Y'
            \<and> stim_shape nT nS (nY + n) Y'
            \<and> map (map (take nY)) Y' = Y"
proof -
  let ?Y' = "map (\<lambda>t. map (\<lambda>s. Y ! t ! s @ map (vf t s) [0..<n]) [0..<length (Y ! t)])
            [0..<length Y]"
  have len: "length Y = nT" and
    tr: "\<And>t. t < length Y \<Longrightarrow> length (Y ! t) = nS" and
    row: "\<And>t s. t < length Y \<Longrightarrow> s < length (Y ! t) \<Longrightarrow> length (Y ! t ! s) = nY"
    using assms by (auto simp: stim_shape_def list_all_length)
  have "stim_shape nT nS (nY + n) ?Y'"
    using len tr row by (simp add: stim_shape_def list_all_length)
  moreover have "map (map (take nY)) ?Y' = Y"
  proof (rule nth_equalityI)
    show "length (map (map (take nY)) ?Y') = length Y" by simp
  next
    fix t assume "t < length (map (map (take nY)) ?Y')"
    then have t: "t < length Y" by simp
    have "map (take nY) (map (\<lambda>s. Y ! t ! s @ map (vf t s) [0..<n]) [0..<length (Y ! t)])
          = Y ! t"
      by (rule nth_equalityI) (simp_all add: row[OF t])
    then show "map (map (take nY)) ?Y' ! t = Y ! t" using t by simp
  qed
  ultimately show ?thesis using add_virtual_rows[of vf n Y] by simp
qed

theorem virtual_outputs_shape_witness:
  "stim_shape 2 1 1 (demo_Y 2)
   \<and> add_virtual_outputs (\<lambda>t s k. 0) (Some 2) (demo_Y 2) = Inr [[[1, 0, 0]], [[1, 0, 0]]]
   \<and> stim_shape 2 1 (1 + 2) [[[1, 0, 0]], [[1, 0, 0::nat]]]
   \<and> map (map (take 1)) [[[1, 0, 0]], [[1, 0, 0::nat]]] = demo_Y 2"
proof -
  have h: "stim_shape 2 1 1 (demo_Y 2)"
    by (simp add: stim_shape_def demo_Y_def numeral_2_eq_2)
  from virtual_outputs_shape[OF h, of "\<lambda>t s k. 0" 2]
  obtain Y' where Y': "add_virtual_outputs (\<lambda>t s k. 0) (Some 2) (demo_Y 2) = Inr Y'"
    "stim_shape 2 1 (1 + 2) Y'" "map (map (take 1)) Y' = demo_Y 2"
    by blast
  have e: "add_virtual_outputs (\<lambda>t s k. 0) (Some 2) (demo_Y 2) = Inr [[[1, 0, 0]], [[1, 0, 0::nat]]]"
    by code_simp
  from Y'(1) e have "Y' = [[[1, 0, 0]], [[1, 0, 0]]]" by simp
  with Y' h e show ?thesis by blast
qed

subsection \<open>What \<^verbatim>\<open>analyse_dataset\<close> returns\<close>




lemma length_put_rows: "length (put_rows msk A V) = length A"
  by (induction msk A V rule: put_rows.induct) simp_all




lemma count_true_complement: "count_true (map Not msk) + count_true msk = length msk"
  by (induction msk) (simp_all add: count_true_def)



lemma train_test_split_None:
  "train_test_split X Y None = Inr (X_train, Y_train, split) \<Longrightarrow> split = None"
  by (simp add: train_test_split_def)











subsection \<open>Hyper-parameter search\<close>

text \<open>
  Claim C6. Take a call with \<^verbatim>\<open>cv\<close> true and a grid of \<^verbatim>\<open>tuned_parameters\<close>, whose
  steps before the fit succeed, and let the grid search return its best parameters and
  \<^verbatim>\<open>set_params\<close> configure the adapter with them. Then the fit of lines 125-147 is
  the \<^verbatim>\<open>cv_fit\<close> of the configured adapter, it is the fit of a call without a grid
  for an adapter configured that way, and everything \<^verbatim>\<open>analyse_dataset\<close> returns is
  computed from that \<^verbatim>\<open>cv_fit\<close>.
\<close>

theorem grid_search_configures_adapter:
  assumes cv: "truthy (arg_cv a)"
    and grid: "arg_tuned_parameters a = Some grid"
    and rate: "tau_offset (arg_coords a) (arg_fs a) (arg_tau_ms a) (arg_offset_ms a)
                 = Inr (tau, offset)"
    and made: "make_clsfr ops a tau offset = Inr clsfr"
    and virt: "add_virtual_outputs (virt ops (arg_Y a)) (arg_n_virt_out a) (arg_Y a) = Inr Y"
    and split: "train_test_split (arg_X a) Y (arg_test_idx a) = Inr (X_train, Y_train, split)"
    and best: "grid_search ops clsfr grid X_train Y_train = Inr best_params"
    and conf: "set_params ops clsfr best_params = Inr clsfr'"
  shows "fit_model ops clsfr a X_train Y_train Y =
           ebind (cv_fit ops clsfr' X_train Y_train (arg_cv a)
                    (if arg_ranks a \<noteq> None \<and> is_MultiCCA ops clsfr' then arg_ranks a else None)
                    (arg_retrain_on_all a))
             (\<lambda>(clsfr, res). ebind (getitem res ''estimator'') (\<lambda>Fy. Inr (clsfr, res, Fy)))
       \<and> fit_model ops clsfr a X_train Y_train Y =
           fit_model ops clsfr' (a\<lparr>arg_tuned_parameters := None\<rparr>) X_train Y_train Y
       \<and> analyse_dataset ops a =
           ebind (cv_fit ops clsfr' X_train Y_train (arg_cv a)
                    (if arg_ranks a \<noteq> None \<and> is_MultiCCA ops clsfr' then arg_ranks a else None)
                    (arg_retrain_on_all a))
             (\<lambda>(clsfr, res).
                ebind (getitem res ''estimator'') (\<lambda>Fy.
                ebind (splice_test ops clsfr (arg_X a) Y split res Fy) (\<lambda>(rawFy, res).
                ebind (audc_score ops clsfr rawFy) (\<lambda>score.
                ebind (decodingCurveSupervised ops clsfr rawFy) (\<lambda>dc.
                Inr (score, dc, Fy, clsfr, res))))))"
proof -
  have A: "fit_model ops clsfr a X_train Y_train Y =
           ebind (cv_fit ops clsfr' X_train Y_train (arg_cv a)
                    (if arg_ranks a \<noteq> None \<and> is_MultiCCA ops clsfr' then arg_ranks a else None)
                    (arg_retrain_on_all a))
             (\<lambda>(clsfr, res). ebind (getitem res ''estimator'') (\<lambda>Fy. Inr (clsfr, res, Fy)))"
    using cv grid best conf by (simp add: fit_model_def tune_def)
  have B: "fit_model ops clsfr a X_train Y_train Y =
           fit_model ops clsfr' (a\<lparr>arg_tuned_parameters := None\<rparr>) X_train Y_train Y"
    using cv grid best conf by (simp add: fit_model_def tune_def)
  have C: "analyse_dataset ops a =
           ebind (fit_model ops clsfr a X_train Y_train Y) (\<lambda>(clsfr, res, Fy).
             ebind (splice_test ops clsfr (arg_X a) Y split res Fy) (\<lambda>(rawFy, res).
             ebind (audc_score ops clsfr rawFy) (\<lambda>score.
             ebind (decodingCurveSupervised ops clsfr rawFy) (\<lambda>dc.
             Inr (score, dc, Fy, clsfr, res)))))"
    by (simp add: analyse_dataset_def rate made virt split)
  have D: "analyse_dataset ops a =
           ebind (cv_fit ops clsfr' X_train Y_train (arg_cv a)
                    (if arg_ranks a \<noteq> None \<and> is_MultiCCA ops clsfr' then arg_ranks a else None)
                    (arg_retrain_on_all a))
             (\<lambda>(clsfr, res).
                ebind (getitem res ''estimator'') (\<lambda>Fy.
                ebind (splice_test ops clsfr (arg_X a) Y split res Fy) (\<lambda>(rawFy, res).
                ebind (audc_score ops clsfr rawFy) (\<lambda>score.
                ebind (decodingCurveSupervised ops clsfr rawFy) (\<lambda>dc.
                Inr (score, dc, Fy, clsfr, res))))))"
  proof (cases "cv_fit ops clsfr' X_train Y_train (arg_cv a)
                    (if arg_ranks a \<noteq> None \<and> is_MultiCCA ops clsfr' then arg_ranks a else None)
                    (arg_retrain_on_all a)")
    case (Inl e)
    then show ?thesis unfolding C A by simp
  next
    case (Inr r)
    obtain c2 res where r: "r = (c2, res)" by (cases r)
    show ?thesis
      unfolding C A Inr r
      by (cases "getitem res ''estimator''") simp_all
  qed
  from A B D show ?thesis by blast
qed

theorem grid_search_configures_adapter_witness:
  "analyse_dataset demo_ops
     ((default_call [0, 1] (demo_Y 2) (Some demo_coords))
        \<lparr> arg_model := Instance ([], []),
          arg_tuned_parameters := Some [(''rank'', [PInt 1, PInt 2, PInt 3])] \<rparr>)
   = Inr (0, 2, [100, 101], ([(''rank'', PInt 3)], [0, 1]), [(''estimator'', [100, 101])])
   \<and> set_params demo_ops ([], []) [(''rank'', PInt 3)] = Inr ([(''rank'', PInt 3)], [])
   \<and> fit_model demo_ops ([], [])
       ((default_call [0, 1] (demo_Y 2) (Some demo_coords))
          \<lparr> arg_model := Instance ([], []),
            arg_tuned_parameters := Some [(''rank'', [PInt 1, PInt 2, PInt 3])] \<rparr>)
       [0, 1] (demo_Y 2) (demo_Y 2)
     = fit_model demo_ops ([(''rank'', PInt 3)], [])
       ((default_call [0, 1] (demo_Y 2) (Some demo_coords))
          \<lparr> arg_model := Instance ([], []),
            arg_tuned_parameters := Some [(''rank'', [PInt 1, PInt 2, PInt 3])] \<rparr>
          \<lparr> arg_tuned_parameters := None \<rparr>)
       [0, 1] (demo_Y 2) (demo_Y 2)"
proof -
  let ?a = "(default_call [0, 1] (demo_Y 2) (Some demo_coords))
        \<lparr> arg_model := Instance ([], []),
          arg_tuned_parameters := Some [(''rank'', [PInt 1, PInt 2, PInt 3])] \<rparr>
        :: (pyval dict \<times> nat list, nat, nat) call"
  have h1: "truthy (arg_cv ?a)" by (simp add: default_call_def)
  have h2: "arg_tuned_parameters ?a = Some [(''rank'', [PInt 1, PInt 2, PInt 3])]" by simp
  have h3: "tau_offset (arg_coords ?a) (arg_fs ?a) (arg_tau_ms ?a) (arg_offset_ms ?a)
              = Inr (30, 0)"
    by code_simp
  have h4: "make_clsfr demo_ops ?a 30 0 = Inr ([], [])"
    by (simp add: make_clsfr_def create_model_def)
  have h5: "add_virtual_outputs (virt demo_ops (arg_Y ?a)) (arg_n_virt_out ?a) (arg_Y ?a)
              = Inr (demo_Y 2)"
    by (simp add: add_virtual_outputs_def default_call_def)
  have h6: "train_test_split (arg_X ?a) (demo_Y 2) (arg_test_idx ?a)
              = Inr ([0, 1], demo_Y 2, None)"
    by (simp add: train_test_split_def default_call_def)
  have h7: "grid_search demo_ops ([], []) [(''rank'', [PInt 1, PInt 2, PInt 3])] [0, 1] (demo_Y 2)
              = Inr [(''rank'', PInt 3)]"
    by (simp add: demo_ops_def)
  have h8: "set_params demo_ops ([], []) [(''rank'', PInt 3)] = Inr ([(''rank'', PInt 3)], [])"
    by (simp add: demo_ops_def)
  have run: "analyse_dataset demo_ops ?a
     = Inr (0, 2, [100, 101], ([(''rank'', PInt 3)], [0, 1]), [(''estimator'', [100, 101])])"
    by code_simp
  from grid_search_configures_adapter[OF h1 h2 h3 h4 h5 h6 h7 h8]
  have "fit_model demo_ops ([], []) ?a [0, 1] (demo_Y 2) (demo_Y 2)
     = fit_model demo_ops ([(''rank'', PInt 3)], []) (?a\<lparr> arg_tuned_parameters := None \<rparr>)
         [0, 1] (demo_Y 2) (demo_Y 2)"
    by blast
  with run h8 show ?thesis by blast
qed

subsection \<open>The sweep over a grid of configurations\<close>







subsection \<open>Loader arguments of a configuration\<close>

lemma override_non_loader:
  assumes "clsfr_args_f ov = clsfr_args_f ov'" "kwargs_f ov = kwargs_f ov'"
    "preprocess_args_f ov = preprocess_args_f ov'" "model_f ov = model_f ov'"
  shows "clsfr_args_f (override ov item) = clsfr_args_f (override ov' item)
       \<and> kwargs_f (override ov item) = kwargs_f (override ov' item)
       \<and> preprocess_args_f (override ov item) = preprocess_args_f (override ov' item)
       \<and> model_f (override ov item) = model_f (override ov' item)"
  using assms by (cases item) (simp add: override_def)

lemma override_loader_key:
  assumes "startswith (fst item) ''loader_args''"
  shows "clsfr_args_f (override ov item) = clsfr_args_f ov
       \<and> kwargs_f (override ov item) = kwargs_f ov
       \<and> preprocess_args_f (override ov item) = preprocess_args_f ov
       \<and> model_f (override ov item) = model_f ov"
proof -
  obtain k v where item: "item = (k, v)" by (cases item)
  have "\<not> startswith k ''clsfr_args''"
    using assms item by (cases k) (auto simp: startswith_def)
  with assms item show ?thesis by (simp add: override_def)
qed

lemma foldl_override_non_loader:
  assumes "clsfr_args_f ov = clsfr_args_f ov'" "kwargs_f ov = kwargs_f ov'"
    "preprocess_args_f ov = preprocess_args_f ov'" "model_f ov = model_f ov'"
  shows "clsfr_args_f (foldl override ov cfg) =
           clsfr_args_f (foldl override ov'
             (filter (\<lambda>item. \<not> startswith (fst item) ''loader_args'') cfg))
       \<and> kwargs_f (foldl override ov cfg) =
           kwargs_f (foldl override ov'
             (filter (\<lambda>item. \<not> startswith (fst item) ''loader_args'') cfg))
       \<and> preprocess_args_f (foldl override ov cfg) =
           preprocess_args_f (foldl override ov'
             (filter (\<lambda>item. \<not> startswith (fst item) ''loader_args'') cfg))
       \<and> model_f (foldl override ov cfg) =
           model_f (foldl override ov'
             (filter (\<lambda>item. \<not> startswith (fst item) ''loader_args'') cfg))"
  using assms
proof (induction cfg arbitrary: ov ov')
  case Nil
  then show ?case by simp
next
  case (Cons item cfg)
  show ?case
  proof (cases "startswith (fst item) ''loader_args''")
    case True
    from override_loader_key[OF True, of ov] Cons.prems
    have "clsfr_args_f (override ov item) = clsfr_args_f ov'"
      "kwargs_f (override ov item) = kwargs_f ov'"
      "preprocess_args_f (override ov item) = preprocess_args_f ov'"
      "model_f (override ov item) = model_f ov'"
      by simp_all
    from Cons.IH[OF this] True show ?thesis by simp
  next
    case False
    from override_non_loader[OF Cons.prems, of item]
    have "clsfr_args_f (override ov item) = clsfr_args_f (override ov' item)"
      "kwargs_f (override ov item) = kwargs_f (override ov' item)"
      "preprocess_args_f (override ov item) = preprocess_args_f (override ov' item)"
      "model_f (override ov item) = model_f (override ov' item)"
      by simp_all
    from Cons.IH[OF this] False show ?thesis by simp
  qed
qed

lemma analyse_config_cong:
  assumes "clsfr_args_f ov = clsfr_args_f ov'" "kwargs_f ov = kwargs_f ov'"
    "preprocess_args_f ov = preprocess_args_f ov'" "model_f ov = model_f ov'"
  shows "analyse_config env kw ov d = analyse_config env kw ov' d"
  unfolding analyse_config_def assms ..

lemma analyse_config_loader_keys:
  assumes "filter (\<lambda>item. \<not> startswith (fst item) ''loader_args'') cfg' =
           filter (\<lambda>item. \<not> startswith (fst item) ''loader_args'') cfg"
  shows "analyse_config env kw (apply_config la model ca pa kw cfg') d =
         analyse_config env kw (apply_config la model ca pa kw cfg) d"
proof -
  let ?init = "\<lparr> clsfr_args_f = ca, kwargs_f = kw, loader_args_f = la,
                  preprocess_args_f = pa, model_f = model \<rparr>"
  let ?nl = "filter (\<lambda>item. \<not> startswith (fst item) ''loader_args'')"
  note f' = foldl_override_non_loader[OF refl refl refl refl, of ?init cfg']
  note f = foldl_override_non_loader[OF refl refl refl refl, of ?init cfg]
  have a: "analyse_config env kw (foldl override ?init cfg') d =
           analyse_config env kw (foldl override ?init (?nl cfg')) d"
    by (rule analyse_config_cong) (simp_all only: f')
  have b: "analyse_config env kw (foldl override ?init cfg) d =
           analyse_config env kw (foldl override ?init (?nl cfg)) d"
    by (rule analyse_config_cong) (simp_all only: f)
  from a b assms show ?thesis by (simp add: apply_config_def)
qed

lemma load_step_base:
  assumes "load_step env filename la ov ci loaded = Some (Some d)"
  shows "loaded = Some d \<or> loader env filename la = Inr d"
proof (cases "ci = 0 \<or> \<not> dict_eq (loader_args_f ov) la")
  case True
  with assms show ?thesis
    by (cases "loader env filename la") (simp_all add: load_step_def)
next
  case False
  with assms show ?thesis by (simp add: load_step_def)
qed

lemma config_step_cases:
  "load_step env filename la (apply_config la model ca pa kw cfg) ci (snd st) = None \<Longrightarrow>
     config_step env filename la model ca pa kw st ci cfg = Inr st"
  "load_step env filename la (apply_config la model ca pa kw cfg) ci (snd st) = Some None \<Longrightarrow>
     config_step env filename la model ca pa kw st ci cfg = Inl UnboundLocalError"
  "load_step env filename la (apply_config la model ca pa kw cfg) ci (snd st) = Some (Some d) \<Longrightarrow>
     config_step env filename la model ca pa kw st ci cfg =
       ebind (analyse_config env kw (apply_config la model ca pa kw cfg) d)
         (\<lambda>(score, decoding_curve).
            Inr (store (fst st) ci cfg la (clsfr_args_f (apply_config la model ca pa kw cfg))
                   filename score decoding_curve, Some d))"
  by (simp_all add: config_step_def Let_def)

lemma config_step_Inr:
  assumes "config_step env filename la model ca pa kw st ci cfg = Inr st'"
  shows "st' = st
       \<or> (\<exists>d score dc.
            (snd st = Some d \<or> loader env filename la = Inr d)
          \<and> analyse_config env kw (apply_config la model ca pa kw cfg) d = Inr (score, dc)
          \<and> st' = (store (fst st) ci cfg la (clsfr_args_f (apply_config la model ca pa kw cfg))
                      filename score dc, Some d))"
proof (cases "load_step env filename la (apply_config la model ca pa kw cfg) ci (snd st)")
  case None
  from config_step_cases(1)[OF None] assms have "st' = st" by simp
  then show ?thesis ..
next
  case (Some l)
  show ?thesis
  proof (cases l)
    case None
    with Some have "load_step env filename la (apply_config la model ca pa kw cfg) ci (snd st)
                      = Some None" by simp
    from config_step_cases(2)[OF this] assms show ?thesis by simp
  next
    case d: (Some d)
    with Some have ls: "load_step env filename la (apply_config la model ca pa kw cfg) ci (snd st)
                      = Some (Some d)" by simp
    have ld: "snd st = Some d \<or> loader env filename la = Inr d"
      by (rule load_step_base[OF ls])
    note cs = config_step_cases(3)[OF ls]
    show ?thesis
    proof (cases "analyse_config env kw (apply_config la model ca pa kw cfg) d")
      case (Inl e)
      with cs assms show ?thesis by simp
    next
      case (Inr r)
      obtain score dc where sd: "r = (score, dc)" by (cases r)
      from cs Inr sd assms have "st' = (store (fst st) ci cfg la
          (clsfr_args_f (apply_config la model ca pa kw cfg)) filename score dc, Some d)"
        by simp
      with ld Inr sd show ?thesis by blast
    qed
  qed
qed

lemma config_step_loaded:
  assumes inv: "\<forall>d. snd st = Some d \<longrightarrow> loader env filename la = Inr d"
    and step: "config_step env filename la model ca pa kw st ci cfg = Inr st'"
  shows "\<forall>d. snd st' = Some d \<longrightarrow> loader env filename la = Inr d"
proof (intro allI impI)
  fix d' assume d': "snd st' = Some d'"
  from config_step_Inr[OF step] consider
    (same) "st' = st"
    | (run) d where "snd st = Some d \<or> loader env filename la = Inr d" "snd st' = Some d"
    by fastforce
  then show "loader env filename la = Inr d'"
  proof cases
    case same
    with inv d' show ?thesis by simp
  next
    case run
    with inv d' show ?thesis by auto
  qed
qed

lemma config_loop_loaded:
  assumes "\<forall>d. snd st = Some d \<longrightarrow> loader env filename la = Inr d"
    and "config_loop env filename la model ca pa kw st ci grid = Inr st'"
  shows "\<forall>d. snd st' = Some d \<longrightarrow> loader env filename la = Inr d"
  using assms
proof (induction grid arbitrary: st ci)
  case Nil
  then show ?case by simp
next
  case (Cons cfg grid)
  from Cons.prems(2) obtain st1 where
    s: "config_step env filename la model ca pa kw st ci cfg = Inr st1" and
    l: "config_loop env filename la model ca pa kw st1 (Suc ci) grid = Inr st'"
    unfolding config_loop.simps ebind_eq_Inr by blast
  from config_step_loaded[OF Cons.prems(1) s] have
    "\<forall>d. snd st1 = Some d \<longrightarrow> loader env filename la = Inr d" .
  from Cons.IH[OF this l] show ?case .
qed

text \<open>
  Claim C10. Let the configurations \<open>pre\<close> before \<open>cfg\<close> have been processed, leaving
  the state \<open>st\<close>, and let the step for \<open>cfg\<close> return. Then either \<open>cfg\<close> was skipped,
  or the data that was preprocessed and analysed is what the loader returns for the
  function's own \<open>loader_args\<close>; the entries of \<open>cfg\<close> prefixed \<^verbatim>\<open>loader_args\<close> never
  reach the loader. And for any configuration \<open>cfg'\<close> that differs from \<open>cfg\<close> only in
  entries with that prefix, preprocessing and analysis receive the same arguments on
  the same data. (The loader and \<^verbatim>\<open>preprocess\<close> are functions of their arguments.)
\<close>

theorem loaded_with_base_loader_args:
  assumes pre: "config_loop env filename la model ca pa kw (res, None) 0 pre = Inr st"
    and step: "config_step env filename la model ca pa kw st (length pre) cfg = Inr st'"
  shows "(st' = st
          \<or> (\<exists>d score dc.
               loader env filename la = Inr d
             \<and> analyse_config env kw (apply_config la model ca pa kw cfg) d = Inr (score, dc)
             \<and> st' = (store (fst st) (length pre) cfg la
                         (clsfr_args_f (apply_config la model ca pa kw cfg))
                         filename score dc, Some d)))
       \<and> (\<forall>cfg' d.
            filter (\<lambda>item. \<not> startswith (fst item) ''loader_args'') cfg' =
            filter (\<lambda>item. \<not> startswith (fst item) ''loader_args'') cfg \<longrightarrow>
            analyse_config env kw (apply_config la model ca pa kw cfg') d =
            analyse_config env kw (apply_config la model ca pa kw cfg) d)"
proof -
  have inv: "\<forall>d. snd st = Some d \<longrightarrow> loader env filename la = Inr d"
    by (rule config_loop_loaded[OF _ pre]) simp
  from config_step_Inr[OF step] inv
  have A: "st' = st
          \<or> (\<exists>d score dc.
               loader env filename la = Inr d
             \<and> analyse_config env kw (apply_config la model ca pa kw cfg) d = Inr (score, dc)
             \<and> st' = (store (fst st) (length pre) cfg la
                         (clsfr_args_f (apply_config la model ca pa kw cfg))
                         filename score dc, Some d))"
    by blast
  have B: "\<forall>cfg' d.
            filter (\<lambda>item. \<not> startswith (fst item) ''loader_args'') cfg' =
            filter (\<lambda>item. \<not> startswith (fst item) ''loader_args'') cfg \<longrightarrow>
            analyse_config env kw (apply_config la model ca pa kw cfg') d =
            analyse_config env kw (apply_config la model ca pa kw cfg) d"
    by (intro allI impI) (rule analyse_config_loader_keys)
  from A B show ?thesis by blast
qed

theorem loaded_with_base_loader_args_witness:
  "config_loop demo_sweep ''s1.txt'' [(''fs_out'', PInt 100)] (PStr ''cca'') [] [] []
      ([], None) 0 [[(''model'', PStr ''cca'')]]
    = Inr ([Some \<lparr> res_config = [(''model'', PStr ''cca'')],
                    res_loader_args = [(''fs_out'', PInt 100)], res_clsfr_args = [],
                    res_filenames = [''s1.txt''], res_scores = [1],
                    res_decoding_curves = [''s1.txt''] \<rparr>],
           Some (''s1.txt'', [(''fs_out'', PInt 100)]))
   \<and> config_step demo_sweep ''s1.txt'' [(''fs_out'', PInt 100)] (PStr ''cca'') [] [] []
      ([Some \<lparr> res_config = [(''model'', PStr ''cca'')],
                    res_loader_args = [(''fs_out'', PInt 100)], res_clsfr_args = [],
                    res_filenames = [''s1.txt''], res_scores = [1],
                    res_decoding_curves = [''s1.txt''] \<rparr>],
           Some (''s1.txt'', [(''fs_out'', PInt 100)]))
      (length [[(''model'', PStr ''cca'')]]) [(''loader_args_subtriallen'', PInt 10)]
    = Inr ([Some \<lparr> res_config = [(''model'', PStr ''cca'')],
                    res_loader_args = [(''fs_out'', PInt 100)], res_clsfr_args = [],
                    res_filenames = [''s1.txt''], res_scores = [1],
                    res_decoding_curves = [''s1.txt''] \<rparr>,
            Some \<lparr> res_config = [(''loader_args_subtriallen'', PInt 10)],
                    res_loader_args = [(''fs_out'', PInt 100)], res_clsfr_args = [],
                    res_filenames = [''s1.txt''], res_scores = [1],
                    res_decoding_curves = [''s1.txt''] \<rparr>],
           Some (''s1.txt'', [(''fs_out'', PInt 100)]))
   \<and> analyse_config demo_sweep []
        (apply_config [(''fs_out'', PInt 100)] (PStr ''cca'') [] [] [] [])
        (''s1.txt'', [(''fs_out'', PInt 100)])
     = analyse_config demo_sweep []
        (apply_config [(''fs_out'', PInt 100)] (PStr ''cca'') [] [] []
           [(''loader_args_subtriallen'', PInt 10)])
        (''s1.txt'', [(''fs_out'', PInt 100)])"
proof -
  let ?st = "([Some \<lparr> res_config = [(''model'', PStr ''cca'')],
                    res_loader_args = [(''fs_out'', PInt 100)], res_clsfr_args = [],
                    res_filenames = [''s1.txt''], res_scores = [1],
                    res_decoding_curves = [''s1.txt''] \<rparr>],
           Some (''s1.txt'', [(''fs_out'', PInt 100)]))
     :: (nat, string) entry option list \<times> (string \<times> pyval dict) option"
  let ?st' = "([Some \<lparr> res_config = [(''model'', PStr ''cca'')],
                    res_loader_args = [(''fs_out'', PInt 100)], res_clsfr_args = [],
                    res_filenames = [''s1.txt''], res_scores = [1],
                    res_decoding_curves = [''s1.txt''] \<rparr>,
            Some \<lparr> res_config = [(''loader_args_subtriallen'', PInt 10)],
                    res_loader_args = [(''fs_out'', PInt 100)], res_clsfr_args = [],
                    res_filenames = [''s1.txt''], res_scores = [1],
                    res_decoding_curves = [''s1.txt''] \<rparr>],
           Some (''s1.txt'', [(''fs_out'', PInt 100)]))
     :: (nat, string) entry option list \<times> (string \<times> pyval dict) option"
  have p: "config_loop demo_sweep ''s1.txt'' [(''fs_out'', PInt 100)] (PStr ''cca'') [] [] []
      ([], None) 0 [[(''model'', PStr ''cca'')]] = Inr ?st"
    by code_simp
  have s: "config_step demo_sweep ''s1.txt'' [(''fs_out'', PInt 100)] (PStr ''cca'') [] [] []
      ?st (length [[(''model'', PStr ''cca'')]]) [(''loader_args_subtriallen'', PInt 10)]
      = Inr ?st'"
    by code_simp
  have f: "filter (\<lambda>item. \<not> startswith (fst item) ''loader_args'') [] =
           filter (\<lambda>item. \<not> startswith (fst item) ''loader_args'')
             [(''loader_args_subtriallen'', PInt 10)]"
    by (simp add: startswith_def)
  from loaded_with_base_loader_args[OF p s] f
  have "analyse_config demo_sweep []
        (apply_config [(''fs_out'', PInt 100)] (PStr ''cca'') [] [] [] [])
        (''s1.txt'', [(''fs_out'', PInt 100)])
     = analyse_config demo_sweep []
        (apply_config [(''fs_out'', PInt 100)] (PStr ''cca'') [] [] []
           [(''loader_args_subtriallen'', PInt 10)])
        (''s1.txt'', [(''fs_out'', PInt 100)])"
    by blast
  with p s show ?thesis by blast
qed

subsection \<open>Collecting the results of the workers\<close>









subsection \<open>Splicing the held-out predictions\<close>

lemma count_true_simps [simp]:
  "count_true [] = 0"
  "count_true (True # msk) = Suc (count_true msk)"
  "count_true (False # msk) = count_true msk"
  by (simp_all add: count_true_def)

lemma put_rows_nth:
  assumes "length msk = length A" "length V = count_true msk" "i < length A"
  shows "put_rows msk A V ! i = (if msk ! i then V ! count_true (take i msk) else A ! i)"
  using assms
proof (induction msk A V arbitrary: i rule: put_rows.induct)
  case (1 msk a A v vs)
  then show ?case by (cases i) simp_all
next
  case (2 msk a A vs)
  then show ?case by (cases i) simp_all
qed simp_all

lemma norm_indices_Inr:
  assumes "norm_indices n idx = Inr js"
  shows "length js = length idx \<and> (\<forall>j \<in> set js. j < n)"
  using assms
proof (induction idx arbitrary: js)
  case Nil
  then show ?case by simp
next
  case (Cons i idx)
  from Cons.prems obtain j js' where j: "norm_index n i = Inr j"
    and js': "norm_indices n idx = Inr js'" and e: "js = j # js'"
    by (auto simp: ebind_eq_Inr)
  from j have "j < n" by (auto simp: norm_index_def split: if_splits)
  with Cons.IH[OF js'] e show ?case by simp
qed

lemma count_true_map_upt:
  "count_true (map P [0..<m]) = card {i. i < m \<and> P i}"
proof -
  have "count_true (map P [0..<m]) = length (filter P [0..<m])"
    by (simp add: count_true_def filter_map comp_def)
  also have "\<dots> = card ({i. P i} \<inter> set [0..<m])"
    by (simp add: distinct_length_filter)
  also have "{i. P i} \<inter> set [0..<m] = {i. i < m \<and> P i}" by auto
  finally show ?thesis .
qed

lemma strict_sorted_below:
  assumes "sorted_wrt (<) (js :: nat list)" "k < length js"
  shows "{i. i < js ! k \<and> i \<in> set js} = set (take k js)"
proof (intro set_eqI iffI)
  fix x assume "x \<in> {i. i < js ! k \<and> i \<in> set js}"
  then have lt: "x < js ! k" and "x \<in> set js" by simp_all
  then obtain i where i: "i < length js" "js ! i = x" by (auto simp: in_set_conv_nth)
  have "i < k"
  proof (rule ccontr)
    assume "\<not> i < k"
    then have "k = i \<or> k < i" by auto
    then have "js ! k \<le> js ! i"
    proof
      assume "k = i" then show ?thesis by simp
    next
      assume "k < i"
      from sorted_wrt_nth_less[OF assms(1) this i(1)] show ?thesis by simp
    qed
    with lt i(2) show False by simp
  qed
  with i show "x \<in> set (take k js)" by (auto simp: in_set_conv_nth)
next
  fix x assume "x \<in> set (take k js)"
  then obtain i where i: "i < k" "i < length js" "js ! i = x"
    by (auto simp: in_set_conv_nth)
  with assms show "x \<in> {i. i < js ! k \<and> i \<in> set js}"
    by (auto simp: sorted_wrt_iff_nth_less)
qed

lemma strict_sorted_distinct: "sorted_wrt (<) (js :: nat list) \<Longrightarrow> distinct js"
  by (simp add: strict_sorted_iff)

lemma rank_of_test_index:
  assumes "sorted_wrt (<) (js :: nat list)" "\<forall>j \<in> set js. j < n" "k < length js"
  shows "count_true (take (js ! k) (map (\<lambda>i. i \<in> set js) [0..<n])) = k"
proof -
  have le: "js ! k \<le> n" using assms(2,3) by (simp add: less_imp_le)
  have "take (js ! k) (map (\<lambda>i. i \<in> set js) [0..<n]) = map (\<lambda>i. i \<in> set js) [0..<js ! k]"
    using le by (simp add: take_map min_def)
  then have "count_true (take (js ! k) (map (\<lambda>i. i \<in> set js) [0..<n]))
             = card {i. i < js ! k \<and> i \<in> set js}"
    by (simp add: count_true_map_upt)
  also have "\<dots> = card (set (take k js))"
    by (simp add: strict_sorted_below[OF assms(1,3)])
  also have "\<dots> = length (take k js)"
    using strict_sorted_distinct[OF assms(1)] by (simp add: distinct_card)
  finally show ?thesis using assms(3) by simp
qed

lemma count_true_test_mask:
  assumes "distinct (js :: nat list)" "\<forall>j \<in> set js. j < n"
  shows "count_true (map (\<lambda>i. i \<in> set js) [0..<n]) = length js"
proof -
  have "{i. i < n \<and> i \<in> set js} = set js" using assms(2) by auto
  then show ?thesis using assms(1) by (simp add: count_true_map_upt distinct_card)
qed

text \<open>
  Where the splice works: \<^verbatim>\<open>test_idx\<close> strictly ascending (after negative indices
  are resolved), as many rows of training scores as there are training trials, one
  prediction per test trial. Then the spliced tensor has one trial per trial of \<open>X\<close>,
  the position of every test trial holds the prediction for that trial, and the
  training positions hold the training scores in their order.
\<close>

lemma splice_ascending:
  fixes Fy :: "'s::zero list"
  assumes js: "norm_indices (length X) idx = Inr js"
    and asc: "sorted_wrt (<) js"
    and yt: "take_rows Y idx = Inr Y_test"
    and pred: "predict ops clsfr (map (\<lambda>j. X ! j) js) Y_test None = Inr Fy_test"
    and prow: "length Fy_test = length js"
    and raw: "length (raw_scores res Fy) = length X - length js"
  shows "\<exists>allFy.
           splice_test ops clsfr X Y
             (Some (idx, map Not (map (\<lambda>i. i \<in> set js) [0..<length X]),
                    map (\<lambda>i. i \<in> set js) [0..<length X])) res Fy
             = Inr (allFy, setitem res ''rawestimator'' allFy)
         \<and> length allFy = length X
         \<and> (\<forall>k<length js. allFy ! (js ! k) = Fy_test ! k)
         \<and> (\<forall>i<length X. i \<notin> set js \<longrightarrow>
               allFy ! i = raw_scores res Fy !
                 count_true (take i (map Not (map (\<lambda>i. i \<in> set js) [0..<length X]))))"
proof -
  let ?N = "length X"
  let ?test = "map (\<lambda>i. i \<in> set js) [0..<?N]"
  let ?train = "map Not ?test"
  let ?zeros = "replicate ?N 0 :: 's list"
  let ?A1 = "put_rows ?train ?zeros (raw_scores res Fy)"
  let ?A2 = "put_rows ?test ?A1 Fy_test"
  from norm_indices_Inr[OF js] have bound: "\<forall>j \<in> set js. j < ?N" by simp
  have dist: "distinct js" by (rule strict_sorted_distinct[OF asc])
  have ct: "count_true ?test = length js" by (rule count_true_test_mask[OF dist bound])
  have ctr: "count_true ?train = ?N - length js"
    using count_true_complement[of ?test] ct by simp
  have xt: "take_rows X idx = Inr (map (\<lambda>j. X ! j) js)"
    by (simp add: take_rows_def js)
  have a1: "assign_rows ?zeros ?train (raw_scores res Fy) = Inr ?A1"
    using raw ctr by (simp add: assign_rows_def)
  have l1: "length ?A1 = ?N" by (simp add: length_put_rows)
  have a2: "assign_rows ?A1 ?test Fy_test = Inr ?A2"
    using prow ct l1 by (simp add: assign_rows_def)
  have run: "splice_test ops clsfr X Y (Some (idx, ?train, ?test)) res Fy
             = Inr (?A2, setitem res ''rawestimator'' ?A2)"
    by (simp add: splice_test_def xt yt pred a1 a2 del: map_map)
  have l2: "length ?A2 = ?N" by (simp add: length_put_rows)
  have tst: "\<forall>k<length js. ?A2 ! (js ! k) = Fy_test ! k"
  proof (intro allI impI)
    fix k assume k: "k < length js"
    then have jk: "js ! k < ?N" using bound by simp
    have "?A2 ! (js ! k) =
          (if ?test ! (js ! k) then Fy_test ! count_true (take (js ! k) ?test)
           else ?A1 ! (js ! k))"
      by (rule put_rows_nth) (use l1 prow ct jk in simp_all)
    moreover have "?test ! (js ! k)" using jk k by simp
    moreover have "count_true (take (js ! k) ?test) = k"
      by (rule rank_of_test_index[OF asc bound k])
    ultimately show "?A2 ! (js ! k) = Fy_test ! k" by simp
  qed
  have trn: "\<forall>i<?N. i \<notin> set js \<longrightarrow>
               ?A2 ! i = raw_scores res Fy ! count_true (take i ?train)"
  proof (intro allI impI)
    fix i assume i: "i < ?N" and n: "i \<notin> set js"
    have "?A2 ! i =
          (if ?test ! i then Fy_test ! count_true (take i ?test) else ?A1 ! i)"
      by (rule put_rows_nth) (use l1 prow ct i in simp_all)
    moreover have "\<not> ?test ! i" using i n by simp
    moreover have "?A1 ! i =
          (if ?train ! i then raw_scores res Fy ! count_true (take i ?train)
           else ?zeros ! i)"
      by (rule put_rows_nth) (use raw ctr i in simp_all)
    moreover have "?train ! i" using i n by simp
    ultimately show "?A2 ! i = raw_scores res Fy ! count_true (take i ?train)" by simp
  qed
  from run l2 tst trn show ?thesis by blast
qed

text \<open>
  Claim C1. Under the conditions of \<open>splice_ascending\<close> the tensor is the one the
  claim describes. The claim is about every call with a \<^verbatim>\<open>test_idx\<close>; the docstring of
  \<^verbatim>\<open>analyse_dataset\<close> speaks of the test trials as ``not passed to fit/cv_fit''. Two
  calls where lines 158-167 do not give the tensor the claim describes:

  \<^item> \<^verbatim>\<open>cv=False\<close>, two trials, \<^verbatim>\<open>test_idx=[1]\<close>. Line 152 predicts on all of \<open>X\<close>, so
    \<^verbatim>\<open>rawFy\<close> has two trials, and line 164 assigns them to the one training position:
    numpy raises \<^verbatim>\<open>ValueError\<close>.
  \<^item> \<^verbatim>\<open>cv=True\<close>, four trials, \<^verbatim>\<open>test_idx=[3, 1]\<close>. \<^verbatim>\<open>Fy_test\<close> holds the predictions
    for trial 3 and trial 1 in this order; the boolean mask of line 165 writes them in
    ascending position, so position 1 receives the prediction for trial 3 (\<open>203\<close>) and
    position 3 the one for trial 1 (\<open>201\<close>).
\<close>

theorem splice_failing_inputs:
  "analyse_dataset demo_ops
     ((default_call [0, 1] (demo_Y 2) (Some demo_coords))
        \<lparr> arg_test_idx := Some [1], arg_cv := CvBool False \<rparr>)
   = Inl ValueError
   \<and> analyse_dataset demo_ops
     ((default_call [0, 1, 2, 3] (demo_Y 4) (Some demo_coords)) \<lparr> arg_test_idx := Some [3, 1] \<rparr>)
   = Inr (0, 4, [100, 102], ([], [0, 2]),
           [(''estimator'', [100, 102]), (''rawestimator'', [100, 203, 102, 201])])"
proof -
  have "analyse_dataset demo_ops
     ((default_call [0, 1] (demo_Y 2) (Some demo_coords))
        \<lparr> arg_test_idx := Some [1], arg_cv := CvBool False \<rparr>)
   = Inl ValueError"
    by code_simp
  moreover have "analyse_dataset demo_ops
     ((default_call [0, 1, 2, 3] (demo_Y 4) (Some demo_coords)) \<lparr> arg_test_idx := Some [3, 1] \<rparr>)
   = Inr (0, 4, [100, 102], ([], [0, 2]),
           [(''estimator'', [100, 102]), (''rawestimator'', [100, 203, 102, 201])])"
    by code_simp
  ultimately show ?thesis by blast
qed

end
